theory Spec2Isabelle
  imports Complex_Main
begin

section \<open>AirVision: the advisory, forecast, attribution and policy core of app.py\<close>

text \<open>
  Conventions of the embedding.
  \<^item> A Python \<open>float\<close> is a \<^typ>\<open>real\<close>: arithmetic is exact, there is no rounding, no
    infinity and no NaN. Comparisons against the integer thresholds are the same on
    floats and on reals; sums, products and quotients are the idealised ones, so the
    definitions say which formula is computed, not which double it rounds to. The
    properties below are those that do not depend on rounding: threshold comparisons,
    early returns, the closed form of a computation, and arithmetic that is exact on
    doubles (a product with zero, a product with one).
  \<^item> A Python \<open>str\<close> is a \<^typ>\<open>string\<close> holding its UTF-8 bytes: an ASCII character is
    itself, any other code point is the list of its bytes (\<open>CHR 0x..\<close>).
  \<^item> A Python \<open>dict\<close> with string keys is an association list in insertion order.
  \<^item> \<open>None\<close> is \<^const>\<open>None\<close>; an exception is the \<^const>\<open>Inl\<close> side of a sum.
\<close>

subsection \<open>Health advisory (app.py, lines 201-207)\<close>

type_synonym advisory = "string \<times> string \<times> string \<times> string \<times> string"

definition health_advisory :: "real \<Rightarrow> advisory" where
  "health_advisory aqi =
    (if aqi \<le> 50 then
       (''Good '' @ [CHR 0xF0, CHR 0x9F, CHR 0x8C, CHR 0xB1], ''Ideal air quality'',
        ''No mask needed'', ''Perfect for outdoor activities'', ''#14c38e'')
     else if aqi \<le> 100 then
       (''Satisfactory '' @ [CHR 0xF0, CHR 0x9F, CHR 0x99, CHR 0x82],
        ''Minor breathing discomfort'', ''Mask optional'', ''Ideal for morning/evening'',
        ''#e3c84e'')
     else if aqi \<le> 200 then
       (''Moderate '' @ [CHR 0xF0, CHR 0x9F, CHR 0x98, CHR 0x90], ''Breathing discomfort'',
        ''Light mask recommended'', ''Avoid prolonged exposure'', ''#f5a742'')
     else if aqi \<le> 300 then
       (''Poor '' @ [CHR 0xF0, CHR 0x9F, CHR 0x98, CHR 0xB7], ''Respiratory illness possible'',
        ''N95 mask essential'', ''Limit outdoor activities'', ''#ef5b5b'')
     else if aqi \<le> 400 then
       (''Very Poor '' @ [CHR 0xF0, CHR 0x9F, CHR 0x98, CHR 0xB5], ''Health impacts likely'',
        ''Strict N95 protection'', ''Minimize outdoor time'', ''#8f6bf6'')
     else
       (''Severe '' @ [CHR 0xE2, CHR 0x98, CHR 0xA0, CHR 0xEF, CHR 0xB8, CHR 0x8F],
        ''Health emergency'', ''Stay indoors with purifier'',
        ''Avoid all outdoor activities'', ''#ff0000''))"

text \<open>The five components of the tuple, in the order the callers unpack them.\<close>

definition status :: "advisory \<Rightarrow> string" where
  "status a = (case a of (s, _, _, _, _) \<Rightarrow> s)"

definition color :: "advisory \<Rightarrow> string" where
  "color a = (case a of (_, _, _, _, c) \<Rightarrow> c)"

subsection \<open>Live Map colour lookup (app.py, lines 534-540)\<close>

definition aqi_hex :: "real \<Rightarrow> string" where
  "aqi_hex aqi =
    (if aqi \<le> 50 then ''#14c38e''
     else if aqi \<le> 100 then ''#e3c84e''
     else if aqi \<le> 200 then ''#f5a742''
     else if aqi \<le> 300 then ''#ef5b5b''
     else if aqi \<le> 400 then ''#8f6bf6''
     else ''#ff0000'')"

subsection \<open>Exceptions\<close>

datatype py_error = KeyError | ZeroDivisionError

text \<open>\<open>m.get(k, dflt)\<close>, \<open>m[k]\<close> and \<open>a / b\<close> on a dict held as an association list.\<close>

definition dict_get :: "(string \<times> real) list \<Rightarrow> string \<Rightarrow> real \<Rightarrow> real" where
  "dict_get m k dflt = (case map_of m k of None \<Rightarrow> dflt | Some v \<Rightarrow> v)"

definition dict_item :: "(string \<times> real) list \<Rightarrow> string \<Rightarrow> py_error + real" where
  "dict_item m k = (case map_of m k of None \<Rightarrow> Inl KeyError | Some v \<Rightarrow> Inr v)"

definition truediv :: "real \<Rightarrow> real \<Rightarrow> py_error + real" where
  "truediv a b = (if b = 0 then Inl ZeroDivisionError else Inr (a / b))"

subsection \<open>Forecast anchored to today (app.py, lines 210-215)\<close>

text \<open>
  The forecaster is opaque: \<open>model.forecast(steps=n)\<close> is a function from the number of
  steps to the raw sequence. \<open>np.array(..., dtype=float)\<close> keeps the values, and
  \<open>base + shift\<close> adds the scalar to every element.
\<close>

type_synonym forecaster = "nat \<Rightarrow> real list"

definition calibrated_forecast :: "forecaster \<Rightarrow> real option \<Rightarrow> nat \<Rightarrow> real list" where
  "calibrated_forecast model live_aqi steps =
    (let base = model steps in
     if live_aqi = None \<or> length base = 0 then base
     else let shift = the live_aqi - base ! 0 in map (\<lambda>v. v + shift) base)"

subsection \<open>Source buckets (app.py, lines 173-174 and 218-227)\<close>

definition features :: "string list" where
  "features = [''PM2.5'', ''PM10'', ''NO2'', ''SO2'', ''CO'', ''O3'']"

abbreviation traffic_key :: string where
  "traffic_key \<equiv> ''Traffic (NO'' @ [CHR 0xE2, CHR 0x82, CHR 0x82] @ '' + CO)''"

abbreviation dust_key :: string where
  "dust_key \<equiv> ''Dust & Stubble (PM2.5 + PM10)''"

abbreviation industry_key :: string where
  "industry_key \<equiv> ''Industry (SO'' @ [CHR 0xE2, CHR 0x82, CHR 0x82] @ '')''"

abbreviation photochemical_key :: string where
  "photochemical_key \<equiv> ''Photochemical (O'' @ [CHR 0xE2, CHR 0x82, CHR 0x83] @ '')''"

text \<open>
  \<open>importance\<close> is a module-level value read by \<open>source_buckets()\<close>; here it is the
  argument. \<open>raw_buckets\<close> is the dict \<open>buckets\<close> of lines 219-225, before normalisation.
\<close>

definition raw_buckets :: "real list \<Rightarrow> (string \<times> real) list" where
  "raw_buckets importance =
    (let m = zip features importance in
     [(traffic_key, dict_get m ''NO2'' 0 + dict_get m ''CO'' 0),
      (dust_key, dict_get m ''PM2.5'' 0 + dict_get m ''PM10'' 0),
      (industry_key, dict_get m ''SO2'' 0),
      (photochemical_key, dict_get m ''O3'' 0)])"

text \<open>\<open>{k: (v/total)*100 for k, v in buckets.items()}\<close>: the first failing division raises
  (\<open>tot\<close> is the source's \<open>total\<close>).\<close>

fun normalise :: "real \<Rightarrow> (string \<times> real) list \<Rightarrow> py_error + (string \<times> real) list" where
  "normalise tot [] = Inr []"
| "normalise tot ((k, v) # rest) =
    (case truediv v tot of
       Inl e \<Rightarrow> Inl e
     | Inr q \<Rightarrow> (case normalise tot rest of
                  Inl e \<Rightarrow> Inl e
                | Inr rest' \<Rightarrow> Inr ((k, q * 100) # rest')))"

definition source_buckets :: "real list \<Rightarrow> py_error + (string \<times> real) list" where
  "source_buckets importance =
    (let buckets = raw_buckets importance;
         s = sum_list (map snd buckets);
         tot = (if s = 0 then 1 else s)
     in normalise tot buckets)"

subsection \<open>Policy simulator (app.py, lines 495-504)\<close>

text \<open>
  The four sliders give \<open>t\<close>, \<open>d\<close>, \<open>i\<close>, \<open>p\<close> (integers from 0 to 60, read here as
  reals); \<open>buckets\<close> is the dict returned by \<open>source_buckets()\<close>.
\<close>

definition policy_eff ::
  "(string \<times> real) list \<Rightarrow> real \<Rightarrow> real \<Rightarrow> real \<Rightarrow> real \<Rightarrow> py_error + real" where
  "policy_eff buckets t d i p =
    (let w = map (\<lambda>(k, v). (k, v / 100)) buckets in
     case dict_item w traffic_key of Inl e \<Rightarrow> Inl e | Inr wt \<Rightarrow>
     (case dict_item w dust_key of Inl e \<Rightarrow> Inl e | Inr wd \<Rightarrow>
     (case dict_item w industry_key of Inl e \<Rightarrow> Inl e | Inr wi \<Rightarrow>
     (case dict_item w photochemical_key of Inl e \<Rightarrow> Inl e | Inr wp \<Rightarrow>
        Inr (wt * (t / 100) + wd * (d / 100) + wi * (i / 100) + wp * (p / 100))))))"

text \<open>Lines 501-502: \<open>live\<close> is the integer reading of the provider, or \<open>None\<close>.\<close>

definition baseline_of :: "int option \<Rightarrow> real" where
  "baseline_of live = (case live of None \<Rightarrow> 200 | Some l \<Rightarrow> real_of_int l)"

text \<open>
  Lines 495-499 and 503-504 for a given baseline: the projected index and its advisory.
\<close>

definition simulate ::
  "(string \<times> real) list \<Rightarrow> real \<Rightarrow> real \<Rightarrow> real \<Rightarrow> real \<Rightarrow> real \<Rightarrow> py_error + real \<times> advisory" where
  "simulate buckets t d i p baseline =
    (case policy_eff buckets t d i p of
       Inl e \<Rightarrow> Inl e
     | Inr eff \<Rightarrow> (let improved = baseline * (1 - eff) in Inr (improved, health_advisory improved)))"

text \<open>The block as the page runs it, with the baseline taken from the live reading.\<close>

definition policy_simulator ::
  "(string \<times> real) list \<Rightarrow> real \<Rightarrow> real \<Rightarrow> real \<Rightarrow> real \<Rightarrow> int option \<Rightarrow> py_error + real \<times> advisory" where
  "policy_simulator buckets t d i p live = simulate buckets t d i p (baseline_of live)"

section \<open>Auxiliary facts\<close>

lemma distinct_features: "distinct features"
  by (simp add: features_def)

lemma normalise_nonzero:
  "tot \<noteq> 0 \<Longrightarrow> normalise tot xs = Inr (map (\<lambda>(k, v). (k, v / tot * 100)) xs)"
  by (induction xs) (auto simp: truediv_def)

text \<open>The divisor is never zero, so \<open>source_buckets\<close> never raises.\<close>

lemma source_buckets_never_fails:
  "source_buckets importance =
     Inr (map (\<lambda>(k, v). (k, v / (if sum_list (map snd (raw_buckets importance)) = 0 then 1
                                   else sum_list (map snd (raw_buckets importance))) * 100))
            (raw_buckets importance))"
  by (simp add: source_buckets_def Let_def normalise_nonzero)

lemma raw_buckets_six:
  "raw_buckets [pm25, pm10, no2, so2, co, o3] =
     [(traffic_key, no2 + co), (dust_key, pm25 + pm10), (industry_key, so2),
      (photochemical_key, o3)]"
  by (simp add: raw_buckets_def features_def dict_get_def)

text \<open>With the four keys present, no lookup raises and the blend is the weighted sum.\<close>

lemma policy_eff_value:
  assumes "map_of buckets traffic_key = Some a"
    and "map_of buckets dust_key = Some b"
    and "map_of buckets industry_key = Some c"
    and "map_of buckets photochemical_key = Some e"
  shows "policy_eff buckets t d i p =
           Inr (a / 100 * (t / 100) + b / 100 * (d / 100) + c / 100 * (i / 100) +
                e / 100 * (p / 100))"
proof -
  have "map_of (map (\<lambda>(k, v). (k, v / 100)) buckets) k =
          map_option (\<lambda>v. v / 100) (map_of buckets k)" for k
    by (simp add: map_of_map)
  with assms show ?thesis
    by (simp add: policy_eff_def dict_item_def Let_def)
qed

section \<open>Properties\<close>

subsection \<open>Health advisory\<close>

text \<open>
  C1. \<open>health_advisory\<close> has no failing branch and is a function of its argument alone. It
  takes exactly six values, one per interval \<open>(-\<infinity>,50]\<close>, \<open>(50,100]\<close>, \<open>(100,200]\<close>,
  \<open>(200,300]\<close>, \<open>(300,400]\<close>, \<open>(400,\<infinity>)\<close>: the result at \<open>aqi\<close> is the result at 50, 100,
  200, 300, 400 or 401 exactly when \<open>aqi\<close> lies in the interval closed by that boundary (or
  above 400), so each boundary value belongs to the lower tier; the six tiers are pairwise
  distinct, and the tier above 400 is the one whose label starts with \<open>Severe\<close>.
\<close>

theorem health_advisory_tiers:
  "(health_advisory aqi = health_advisory 50 \<longleftrightarrow> aqi \<le> 50) \<and>
   (health_advisory aqi = health_advisory 100 \<longleftrightarrow> 50 < aqi \<and> aqi \<le> 100) \<and>
   (health_advisory aqi = health_advisory 200 \<longleftrightarrow> 100 < aqi \<and> aqi \<le> 200) \<and>
   (health_advisory aqi = health_advisory 300 \<longleftrightarrow> 200 < aqi \<and> aqi \<le> 300) \<and>
   (health_advisory aqi = health_advisory 400 \<longleftrightarrow> 300 < aqi \<and> aqi \<le> 400) \<and>
   (health_advisory aqi = health_advisory 401 \<longleftrightarrow> 400 < aqi) \<and>
   distinct (map health_advisory [50, 100, 200, 300, 400, 401]) \<and>
   health_advisory aqi \<in> set (map health_advisory [50, 100, 200, 300, 400, 401]) \<and>
   take 6 (status (health_advisory 401)) = ''Severe''"
  by (simp add: health_advisory_def status_def)

text \<open>
  C7, as stated: the status is the plain string \<open>Good\<close> for every index up to 50 and the
  plain string \<open>Severe\<close> above 400. The labels of the source carry an emoji after the word,
  so the equality fails, for instance at 10 and at 500.
\<close>

theorem status_plain_label_counterexample:
  "(10::real) \<le> 50 \<and> status (health_advisory 10) \<noteq> ''Good'' \<and>
   (400::real) < 500 \<and> status (health_advisory 500) \<noteq> ''Severe''"
  by (simp add: health_advisory_def status_def)

text \<open>
  C7, amended: for every index up to 50 (negative ones included) the status is the label
  \<open>Good\<close>, a space and U+1F331; for every index above 400 it is the label \<open>Severe\<close>, a space
  and U+2620 U+FE0F.
\<close>

theorem status_good_and_severe:
  "(aqi \<le> 50 \<longrightarrow>
      status (health_advisory aqi) = ''Good '' @ [CHR 0xF0, CHR 0x9F, CHR 0x8C, CHR 0xB1]) \<and>
   (400 < aqi \<longrightarrow>
      status (health_advisory aqi) =
        ''Severe '' @ [CHR 0xE2, CHR 0x98, CHR 0xA0, CHR 0xEF, CHR 0xB8, CHR 0x8F])"
  by (simp add: health_advisory_def status_def)

theorem status_good_and_severe_witness:
  "(-5::real) \<le> 50 \<and>
   status (health_advisory (-5)) = ''Good '' @ [CHR 0xF0, CHR 0x9F, CHR 0x8C, CHR 0xB1] \<and>
   (400::real) < 401 \<and>
   status (health_advisory 401) =
     ''Severe '' @ [CHR 0xE2, CHR 0x98, CHR 0xA0, CHR 0xEF, CHR 0xB8, CHR 0x8F]"
  using status_good_and_severe [of "-5"] status_good_and_severe [of 401] by simp

text \<open>
  C10. The colour lookup of the Live Map page agrees with the advisory table: for every
  index value, \<open>aqi_hex\<close> returns the fifth component of \<open>health_advisory\<close>.
\<close>

theorem aqi_hex_agrees_with_advisory: "aqi_hex aqi = color (health_advisory aqi)"
  by (simp add: aqi_hex_def health_advisory_def color_def)

subsection \<open>Forecast calibration\<close>

text \<open>
  C6. Without a live index the raw forecast is returned as it is, and an empty raw forecast
  is returned empty whatever the live index.
\<close>

theorem calibrated_forecast_identity:
  "calibrated_forecast model None steps = model steps \<and>
   (model steps = [] \<longrightarrow> calibrated_forecast model live_aqi steps = [])"
  by (simp add: calibrated_forecast_def Let_def)

theorem calibrated_forecast_identity_witness:
  "calibrated_forecast (\<lambda>n. [100, 110, 120]) None 3 = [100, 110, 120] \<and>
   (\<lambda>n::nat. []::real list) 3 = [] \<and>
   calibrated_forecast (\<lambda>n. []) (Some 130) 3 = []"
  using calibrated_forecast_identity [of "\<lambda>n. [100, 110, 120]" 3]
    calibrated_forecast_identity [of "\<lambda>n. []" 3 "Some 130"]
  by simp

subsection \<open>Source attribution\<close>

text \<open>
  C5. On the six weights in the order of \<open>features\<close>, the buckets are Traffic = NO2 + CO,
  Dust and Stubble = PM2.5 + PM10, Industry = SO2, Photochemical = O3, each divided by the
  total of the four sums (by 1 when that total is zero) and multiplied by 100; the weights
  10, 10, 5, 5, 5, 5 give 25, 50, 12.5 and 12.5.
\<close>

theorem source_buckets_linear_combination:
  "source_buckets [pm25, pm10, no2, so2, co, o3] =
     (let s = (no2 + co) + (pm25 + pm10) + so2 + o3;
          tot = (if s = 0 then 1 else s)
      in Inr [(traffic_key, (no2 + co) / tot * 100),
              (dust_key, (pm25 + pm10) / tot * 100),
              (industry_key, so2 / tot * 100),
              (photochemical_key, o3 / tot * 100)]) \<and>
   source_buckets [10, 10, 5, 5, 5, 5] =
     Inr [(traffic_key, 25), (dust_key, 50), (industry_key, 12.5), (photochemical_key, 12.5)]"
  unfolding source_buckets_never_fails raw_buckets_six
  by (simp add: Let_def add.assoc)

subsection \<open>Policy simulator\<close>

text \<open>
  C8. With the four levers at 0 the projected index is the baseline itself, for every
  baseline and for every bucket dict that holds the four keys, whatever its percentages
  (all zero, or not adding up to 100).
\<close>

theorem simulate_no_levers:
  assumes "map_of buckets traffic_key = Some a"
    and "map_of buckets dust_key = Some b"
    and "map_of buckets industry_key = Some c"
    and "map_of buckets photochemical_key = Some e"
  shows "simulate buckets 0 0 0 0 baseline = Inr (baseline, health_advisory baseline)"
  by (simp add: simulate_def policy_eff_value [OF assms])

theorem simulate_no_levers_witness:
  "simulate [(traffic_key, 0), (dust_key, 0), (industry_key, 0), (photochemical_key, 0)]
     0 0 0 0 (-7) = Inr (-7, health_advisory (-7)) \<and>
   simulate [(traffic_key, 30), (dust_key, 30), (industry_key, 30), (photochemical_key, 30)]
     0 0 0 0 250 = Inr (250, health_advisory 250)"
  using simulate_no_levers [of "[(traffic_key, 0), (dust_key, 0), (industry_key, 0),
      (photochemical_key, 0)]" 0 0 0 0 "-7"]
    simulate_no_levers [of "[(traffic_key, 30), (dust_key, 30), (industry_key, 30),
      (photochemical_key, 30)]" 30 30 30 30 250]
  by simp

text \<open>
  C9. Without a live reading the baseline is 200: the simulator then does exactly what
  \<open>simulate\<close> does on baseline 200, for every bucket dict and every lever setting, and on a
  bucket dict that holds the four keys it returns the projected index \<open>200 * (1 - eff)\<close>
  instead of raising.
\<close>

theorem baseline_fallback:
  "baseline_of None = 200 \<and>
   policy_simulator buckets t d i p None = simulate buckets t d i p 200 \<and>
   (map_of buckets traffic_key = Some a \<and> map_of buckets dust_key = Some b \<and>
    map_of buckets industry_key = Some c \<and> map_of buckets photochemical_key = Some e \<longrightarrow>
    (\<exists>eff. policy_eff buckets t d i p = Inr eff \<and>
           policy_simulator buckets t d i p None =
             Inr (200 * (1 - eff), health_advisory (200 * (1 - eff)))))"
proof (intro conjI impI)
  show "baseline_of None = 200"
    by (simp add: baseline_of_def)
  show "policy_simulator buckets t d i p None = simulate buckets t d i p 200"
    by (simp add: policy_simulator_def baseline_of_def)
  assume k: "map_of buckets traffic_key = Some a \<and> map_of buckets dust_key = Some b \<and>
    map_of buckets industry_key = Some c \<and> map_of buckets photochemical_key = Some e"
  then have "policy_eff buckets t d i p =
      Inr (a / 100 * (t / 100) + b / 100 * (d / 100) + c / 100 * (i / 100) +
           e / 100 * (p / 100))"
    by (simp add: policy_eff_value)
  then show "\<exists>eff. policy_eff buckets t d i p = Inr eff \<and>
           policy_simulator buckets t d i p None =
             Inr (200 * (1 - eff), health_advisory (200 * (1 - eff)))"
    by (simp add: policy_simulator_def baseline_of_def simulate_def Let_def)
qed

theorem baseline_fallback_witness:
  "policy_simulator [(traffic_key, 25), (dust_key, 50), (industry_key, 10),
                     (photochemical_key, 15)] 0 0 0 0 None = Inr (200, health_advisory 200)"
proof -
  have k: "map_of [(traffic_key, 25), (dust_key, 50), (industry_key, 10),
                   (photochemical_key, 15::real)] traffic_key = Some 25 \<and>
           map_of [(traffic_key, 25), (dust_key, 50), (industry_key, 10),
                   (photochemical_key, 15::real)] dust_key = Some 50 \<and>
           map_of [(traffic_key, 25), (dust_key, 50), (industry_key, 10),
                   (photochemical_key, 15::real)] industry_key = Some 10 \<and>
           map_of [(traffic_key, 25), (dust_key, 50), (industry_key, 10),
                   (photochemical_key, 15::real)] photochemical_key = Some 15"
    by simp
  from baseline_fallback [of "[(traffic_key, 25), (dust_key, 50), (industry_key, 10),
      (photochemical_key, 15)]" 0 0 0 0 25 50 10 15] k
  have "\<exists>eff. policy_eff [(traffic_key, 25), (dust_key, 50), (industry_key, 10),
                          (photochemical_key, 15)] 0 0 0 0 = Inr eff \<and>
          policy_simulator [(traffic_key, 25), (dust_key, 50), (industry_key, 10),
                            (photochemical_key, 15)] 0 0 0 0 None =
            Inr (200 * (1 - eff), health_advisory (200 * (1 - eff)))"
    by blast
  then show ?thesis
    by (auto simp: policy_eff_def dict_item_def)
qed

end
